theory Spec2Isabelle
  imports
    Complex_Main
    "HOL-Library.AList"
    "HOL-Library.Multiset"
    "HOL-Library.Char_ord"
    "HOL-Library.List_Lexorder"
begin

section \<open>Values of the host language\<close>

text \<open>
  The page \<^verbatim>\<open>frontend/src/pages/Reports.js\<close> computes with JavaScript numbers. A finite
  number is modelled by the rational it denotes, so sums are exact; \<open>NaN\<close> is kept as a
  value of its own because the aggregation code meets it (an amount that does not parse).
  Rounding, overflow and the two infinities are outside this model.
\<close>

datatype jsnum = Num rat | NaN

fun js_add :: "jsnum \<Rightarrow> jsnum \<Rightarrow> jsnum" where
  "js_add (Num a) (Num b) = Num (a + b)"
| "js_add _ _ = NaN"


text \<open>\<^verbatim>\<open>total / n\<close> for a positive count \<open>n\<close> (the only division the aggregation makes).\<close>

fun js_div_count :: "jsnum \<Rightarrow> nat \<Rightarrow> jsnum" where
  "js_div_count (Num a) n = Num (a / of_nat n)"
| "js_div_count NaN n = NaN"

text \<open>
  \<^verbatim>\<open>obj[key] || 0\<close>: a missing property (\<open>undefined\<close>), \<open>0\<close> and \<open>NaN\<close> are falsy, so the
  right operand \<open>0\<close> is taken for each of them.
\<close>

fun or_zero :: "jsnum option \<Rightarrow> jsnum" where
  "or_zero None = Num 0"
| "or_zero (Some NaN) = Num 0"
| "or_zero (Some (Num r)) = Num r"

subsection \<open>\<^verbatim>\<open>parseFloat\<close>\<close>

text \<open>
  \<^verbatim>\<open>parseFloat\<close> skips leading white space and reads the longest prefix that is a signed
  decimal literal (digits, an optional fraction, an optional exponent); when there is no
  such prefix the result is \<open>NaN\<close>. The literal \<^verbatim>\<open>Infinity\<close> has no value in this model.
\<close>

definition isDigit :: "char \<Rightarrow> bool" where
  "isDigit c = (c \<in> set ''0123456789'')"

definition isSpace :: "char \<Rightarrow> bool" where
  "isSpace c = (c \<in> set [CHR '' '', CHR 0x09, CHR 0x0A, CHR 0x0B, CHR 0x0C, CHR 0x0D])"

definition digitVal :: "char \<Rightarrow> nat" where
  "digitVal c = of_char c - 48"

definition digitsVal :: "string \<Rightarrow> nat" where
  "digitsVal ds = foldl (\<lambda>n c. 10 * n + digitVal c) 0 ds"

definition pow10 :: "int \<Rightarrow> rat" where
  "pow10 e = (if 0 \<le> e then 10 ^ nat e else 1 / 10 ^ nat (- e))"

definition parseExponent :: "string \<Rightarrow> int" where
  "parseExponent s =
     (case s of
        [] \<Rightarrow> 0
      | c # r \<Rightarrow>
          if c = CHR ''e'' \<or> c = CHR ''E'' then
            (let sg = (case r of [] \<Rightarrow> 1 | d # _ \<Rightarrow> if d = CHR ''-'' then - 1 else 1);
                 r' = (case r of [] \<Rightarrow> []
                       | d # t \<Rightarrow> if d = CHR ''-'' \<or> d = CHR ''+'' then t else r);
                 ds = takeWhile isDigit r'
             in if ds = [] then 0 else sg * int (digitsVal ds))
          else 0)"

definition parseUnsigned :: "string \<Rightarrow> rat option" where
  "parseUnsigned s =
     (let ip = takeWhile isDigit s;
          r1 = dropWhile isDigit s;
          hasDot = (case r1 of [] \<Rightarrow> False | c # _ \<Rightarrow> c = CHR ''.'');
          fp = (if hasDot then takeWhile isDigit (tl r1) else []);
          r2 = (if hasDot then dropWhile isDigit (tl r1) else r1)
      in if ip = [] \<and> fp = [] then None
         else Some ((of_nat (digitsVal ip) + of_nat (digitsVal fp) / 10 ^ length fp)
                    * pow10 (parseExponent r2)))"

definition parseFloat :: "string \<Rightarrow> jsnum" where
  "parseFloat s =
     (let t = dropWhile isSpace s;
          neg = (case t of [] \<Rightarrow> False | c # _ \<Rightarrow> c = CHR ''-'');
          u = (case t of [] \<Rightarrow> []
               | c # r \<Rightarrow> if c = CHR ''-'' \<or> c = CHR ''+'' then r else t)
      in case parseUnsigned u of
           None \<Rightarrow> NaN
         | Some r \<Rightarrow> Num (if neg then - r else r))"

subsection \<open>Calendar dates and their display strings\<close>

text \<open>
  A record's \<^verbatim>\<open>date\<close> is taken as the local calendar day that \<^verbatim>\<open>new Date(expense.date)\<close>
  denotes. \<^verbatim>\<open>toLocaleDateString()\<close> depends on the host's locale, so the aggregation takes
  the formatter as an argument; \<open>toLocaleDateString_enUS\<close> is the \<^verbatim>\<open>en-US\<close> one
  (\<^verbatim>\<open>M/D/YYYY\<close>, no padding).
\<close>

record caldate =
  year :: nat
  month :: nat
  day :: nat

fun showNat :: "nat \<Rightarrow> string" where
  "showNat n =
     (if n < 10 then [char_of (48 + n)]
      else showNat (n div 10) @ [char_of (48 + n mod 10)])"

declare showNat.simps [simp del]

definition toLocaleDateString_enUS :: "caldate \<Rightarrow> string" where
  "toLocaleDateString_enUS d =
     showNat (month d) @ ''/'' @ showNat (day d) @ ''/'' @ showNat (year d)"

section \<open>Expense records and the report summary\<close>

record expense =
  amount :: string
  category :: string
  date :: caldate
  description :: string

text \<open>
  A plain object used as a dictionary is an association list in property order. The keys
  here are category keys and display dates; none of them is an array index or a name
  inherited from \<^verbatim>\<open>Object.prototype\<close>, so property order is insertion order and a missing
  key reads as \<open>undefined\<close>. An assignment \<^verbatim>\<open>obj[k] = v\<close> is \<^const>\<open>AList.update\<close>: it
  overwrites in place or appends.
\<close>

type_synonym jsobj = "(string \<times> jsnum) list"

record report =
  totalSpent :: jsnum
  categoryTotals :: jsobj
  dailyTotals :: jsobj
  transactionCount :: nat
  averageTransaction :: jsnum

text \<open>The body of the \<^verbatim>\<open>forEach\<close> of \<^verbatim>\<open>processReportData\<close>, on the three accumulators.\<close>

definition accumulate ::
  "(caldate \<Rightarrow> string) \<Rightarrow> jsnum \<times> jsobj \<times> jsobj \<Rightarrow> expense \<Rightarrow> jsnum \<times> jsobj \<times> jsobj" where
  "accumulate toLocaleDateString acc e =
     (case acc of (tot, cats, days) \<Rightarrow>
        let amt = parseFloat (amount e);
            tot' = js_add tot amt;
            cats' = AList.update (category e)
                      (js_add (or_zero (map_of cats (category e))) amt) cats;
            dkey = toLocaleDateString (date e);
            days' = AList.update dkey (js_add (or_zero (map_of days dkey)) amt) days
        in (tot', cats', days'))"

definition processReportData :: "(caldate \<Rightarrow> string) \<Rightarrow> expense list \<Rightarrow> report" where
  "processReportData toLocaleDateString expenses =
     (case foldl (accumulate toLocaleDateString) (Num 0, [], []) expenses of
        (tot, cats, days) \<Rightarrow>
          \<lparr> totalSpent = tot,
            categoryTotals = cats,
            dailyTotals = days,
            transactionCount = length expenses,
            averageTransaction =
              (if length expenses > 0 then js_div_count tot (length expenses) else Num 0) \<rparr>)"

section \<open>Chart projections\<close>

text \<open>
  The chart builders read \<^verbatim>\<open>reportData\<close>, which is \<^verbatim>\<open>{}\<close> until the first aggregation
  (\<open>None\<close> here); \<^verbatim>\<open>reportData.dailyTotals || {}\<close> then stands for the empty object. Only
  the labels and the data of a chart are modelled, not its colours.
\<close>

record 'v chart =
  labels :: "string list"
  data :: "'v list"

text \<open>
  \<^verbatim>\<open>Object.keys(...).sort()\<close> has no comparator: the keys are compared as strings, code
  unit by code unit, which on these ASCII keys is the lexicographic order of \<open>char list\<close>.
  \<^verbatim>\<open>obj[key]\<close> is \<open>map_of\<close> (\<open>None\<close> for \<open>undefined\<close>).
\<close>

definition getDailyTrendData :: "report option \<Rightarrow> jsnum option chart" where
  "getDailyTrendData reportData =
     (let days = (case reportData of None \<Rightarrow> [] | Some r \<Rightarrow> dailyTotals r);
          sortedDates = sort (map fst days)
      in \<lparr> labels = sortedDates, data = map (map_of days) sortedDates \<rparr>)"








section \<open>Period selection\<close>

datatype period = Today | Week | Month | LastMonth | Year | LastYear | All | Custom

record custom_date =
  startDate :: "caldate option"
  endDate :: "caldate option"

record selection =
  period :: period
  customDate :: custom_date

text \<open>
  What the user can do to the selection: choose an entry of the period menu, or change one
  of the two date pickers (to a date, or to \<open>null\<close> with the picker's clear action). The
  pickers are rendered only while the period is \<^verbatim>\<open>custom\<close>, so their events exist only
  then. Choosing a period other than \<^verbatim>\<open>custom\<close> resets both bounds in the same handler.
\<close>

datatype event =
    SelectPeriod period
  | PickStartDate "caldate option"
  | PickEndDate "caldate option"

fun dispatch :: "'a selection_scheme \<Rightarrow> event \<Rightarrow> 'a selection_scheme option" where
  "dispatch s (SelectPeriod p) =
     Some (s\<lparr> period := p,
              customDate := (if p \<noteq> Custom then \<lparr> startDate = None, endDate = None \<rparr>
                             else customDate s) \<rparr>)"
| "dispatch s (PickStartDate v) =
     (if period s = Custom then Some (s\<lparr> customDate := (customDate s)\<lparr> startDate := v \<rparr> \<rparr>)
      else None)"
| "dispatch s (PickEndDate v) =
     (if period s = Custom then Some (s\<lparr> customDate := (customDate s)\<lparr> endDate := v \<rparr> \<rparr>)
      else None)"

fun run :: "'a selection_scheme \<Rightarrow> event list \<Rightarrow> 'a selection_scheme option" where
  "run s [] = Some s"
| "run s (ev # evs) = (case dispatch s ev of None \<Rightarrow> None | Some s' \<Rightarrow> run s' evs)"

definition initialSelection :: selection where
  "initialSelection = \<lparr> period = Month, customDate = \<lparr> startDate = None, endDate = None \<rparr> \<rparr>"

section \<open>The environment of the page\<close>

typedecl budget

datatype logo_event = LogoLoaded nat nat | LogoError

text \<open>
  What the page takes from outside: the host's date formatter and clock, the user profile's
  creation date, \<^verbatim>\<open>getDateRange\<close> and the category catalogue of \<^verbatim>\<open>utils/helpers\<close>, the two
  remote calls (an \<open>Inl\<close> is a rejected promise), the outcome of loading \<^verbatim>\<open>/logo.png\<close> (its
  natural width and height, or an error event), and the platform's file system.
\<close>

record env =
  localeDateString :: "caldate \<Rightarrow> string"
  now :: caldate
  createdAt :: "caldate option"
  getDateRange :: "period \<Rightarrow> caldate \<times> caldate"
  expenseCategories :: "string \<Rightarrow> string option"
  getExpenses :: "string \<Rightarrow> string \<Rightarrow> string + expense list"
  getBudgets :: "string + budget list"
  logo :: logo_event
  isNativePlatform :: bool
  writeFileSucceeds :: bool

definition pad :: "nat \<Rightarrow> string \<Rightarrow> string" where
  "pad n s = replicate (n - length s) CHR ''0'' @ s"

text \<open>\<^verbatim>\<open>date.toISOString().split('T')[0]\<close>.\<close>

definition isoDate :: "caldate \<Rightarrow> string" where
  "isoDate d =
     pad 4 (showNat (year d)) @ ''-'' @ pad 2 (showNat (month d)) @ ''-'' @ pad 2 (showNat (day d))"

definition epoch2000 :: caldate where
  "epoch2000 = \<lparr> year = 2000, month = 1, day = 1 \<rparr>"

section \<open>Fetching and holding the report\<close>

record state = selection +
  expenses :: "expense list"
  budgets :: "budget list"
  reportData :: "report option"
  loading :: bool
  error :: "string option"

definition emptyReport :: report where
  "emptyReport =
     \<lparr> totalSpent = Num 0, categoryTotals = [], dailyTotals = [],
       transactionCount = 0, averageTransaction = Num 0 \<rparr>"

text \<open>The \<^verbatim>\<open>dateRange\<close> of \<^verbatim>\<open>fetchReportData\<close>; a bound of a custom range may be \<open>null\<close>.\<close>

definition fetchDateRange ::
  "env \<Rightarrow> 'a selection_scheme \<Rightarrow> caldate option \<times> caldate option" where
  "fetchDateRange env s =
     (if period s = All then
        (Some (case createdAt env of Some c \<Rightarrow> c | None \<Rightarrow> epoch2000),
         Some (case endDate (customDate s) of Some e \<Rightarrow> e | None \<Rightarrow> now env))
      else if period s = Custom then (startDate (customDate s), endDate (customDate s))
      else (case getDateRange env (period s) of (a, b) \<Rightarrow> (Some a, Some b)))"

text \<open>The two awaited calls, in order; the first rejection is the one that is caught.\<close>

definition remoteFetch ::
  "env \<Rightarrow> caldate \<Rightarrow> caldate \<Rightarrow> string + (expense list \<times> budget list)" where
  "remoteFetch env a b =
     (case getExpenses env (isoDate a) (isoDate b) of
        Inl err \<Rightarrow> Inl err
      | Inr expensesResponse \<Rightarrow>
          (case getBudgets env of
             Inl err \<Rightarrow> Inl err
           | Inr budgetsResponse \<Rightarrow> Inr (expensesResponse, budgetsResponse)))"

text \<open>
  Modelled from the spec: \<^verbatim>\<open>handleError\<close> of \<^verbatim>\<open>utils/errorHandler\<close>, which is not part of
  the page's source. It surfaces the error to the presentation layer: the error is held
  for display (the page renders it in its \<^verbatim>\<open>ErrorAlert\<close>).
\<close>

definition handleError :: "string \<Rightarrow> state \<Rightarrow> state" where
  "handleError err s = s\<lparr> error := Some err \<rparr>"

text \<open>
  \<^verbatim>\<open>fetchReportData\<close>, from the state it closes over to the state after its \<^verbatim>\<open>finally\<close>
  (so \<open>loading\<close>, set at the start, is cleared on every path). A response that is \<open>null\<close>
  counts as the empty list (\<^verbatim>\<open>expensesResponse || []\<close>). Calling \<^verbatim>\<open>toISOString\<close> on a
  \<open>null\<close> bound would throw a \<^verbatim>\<open>TypeError\<close> inside the \<^verbatim>\<open>try\<close>.
\<close>

definition fetchReportData :: "env \<Rightarrow> state \<Rightarrow> state" where
  "fetchReportData env s =
     (if period s = Custom
         \<and> (startDate (customDate s) = None \<or> endDate (customDate s) = None)
      then s\<lparr> expenses := [], budgets := [], reportData := Some emptyReport, loading := False \<rparr>
      else
        (case fetchDateRange env s of
           (Some a, Some b) \<Rightarrow>
             (case remoteFetch env a b of
                Inl err \<Rightarrow> (handleError err s)\<lparr> loading := False \<rparr>
              | Inr (expensesResponse, budgetsResponse) \<Rightarrow>
                  s\<lparr> expenses := expensesResponse,
                     budgets := budgetsResponse,
                     reportData := Some (processReportData (localeDateString env) expensesResponse),
                     loading := False \<rparr>)
         | _ \<Rightarrow> (handleError ''TypeError'' s)\<lparr> loading := False \<rparr>))"

section \<open>The document export\<close>

text \<open>
  \<^verbatim>\<open>exportToPDF\<close> draws with a vertical cursor \<^verbatim>\<open>yPos\<close> (millimetres from the top of the
  current page) and appends pages with \<^verbatim>\<open>pdf.addPage()\<close>. The model keeps, for everything
  drawn, the page it is drawn on and the value of \<^verbatim>\<open>yPos\<close> at that moment; fonts and colours
  are left out. A row is drawn around its \<^verbatim>\<open>yPos\<close>: the band from \<^verbatim>\<open>yPos - 2\<close> to
  \<^verbatim>\<open>yPos + 5\<close>, the text at \<^verbatim>\<open>yPos + 4\<close>.
\<close>

record mark =
  atPage :: nat
  atY :: rat

record row =
  rowMark :: mark
  rowExpense :: expense

record category_section =
  sectionCategory :: string
  sectionAmount :: jsnum
  headerMark :: mark
  tableHeaderMark :: mark
  rows :: "row list"

datatype delivery = DocumentsFile | BrowserDownload

record document =
  logoWidth :: rat
  logoHeight :: rat
  titleY :: rat
  periodText :: string
  periodTextY :: rat
  summaryY :: rat
  summaryBoxY :: rat
  summary :: "report option"
  breakdownY :: rat
  sections :: "category_section list"
  pageCount :: nat
  filename :: string
  delivery :: delivery

text \<open>
  The whole body of \<^verbatim>\<open>exportToPDF\<close> is the image's \<^verbatim>\<open>onload\<close> handler; no \<^verbatim>\<open>onerror\<close>
  handler is set. So the export has three outcomes: the handler never runs, the handler
  throws (it is asynchronous, outside the \<^verbatim>\<open>try\<close>), or the document is saved.
\<close>

datatype export_result = NothingProduced | HandlerThrew | Saved document

text \<open>Logo size: at most 40 by 40, keeping the aspect ratio.\<close>

definition logoSize :: "nat \<Rightarrow> nat \<Rightarrow> rat \<times> rat" where
  "logoSize w h =
     (if w > h then (40, (of_nat h / of_nat w) * 40)
      else ((of_nat w / of_nat h) * 40, 40))"

text \<open>
  The cursor is the pair of \<^verbatim>\<open>yPos\<close> and the number of pages appended so far, which is
  the index of the current page. The overflow test
  \<^verbatim>\<open>if (yPos > 270) { pdf.addPage(); yPos = 20; }\<close> stands after each row and after each
  section.
\<close>

definition pageBreakIfPast :: "rat \<times> nat \<Rightarrow> rat \<times> nat" where
  "pageBreakIfPast c = (if fst c > 270 then (20, snd c + 1) else c)"

text \<open>The rows of one category (the inner \<^verbatim>\<open>forEach\<close>).\<close>

fun writeRows :: "rat \<times> nat \<Rightarrow> expense list \<Rightarrow> row list \<times> (rat \<times> nat)" where
  "writeRows c [] = ([], c)"
| "writeRows (yPos, pages) (e # es) =
     (let r = \<lparr> rowMark = \<lparr> atPage = pages, atY = yPos \<rparr>, rowExpense = e \<rparr>;
          res = writeRows (pageBreakIfPast (yPos + 8, pages)) es
      in (r # fst res, snd res))"

text \<open>The sections (the outer \<^verbatim>\<open>forEach\<close> over \<^verbatim>\<open>Object.entries(reportData.categoryTotals)\<close>).\<close>

fun writeSections ::
  "expense list \<Rightarrow> rat \<times> nat \<Rightarrow> jsobj \<Rightarrow> category_section list \<times> (rat \<times> nat)" where
  "writeSections exps c [] = ([], c)"
| "writeSections exps (yPos, pages) ((cat, amt) # rest) =
     (let hdr = \<lparr> atPage = pages, atY = yPos \<rparr>;
          yPos1 = yPos + 16;
          th = \<lparr> atPage = pages, atY = yPos1 \<rparr>;
          yPos2 = yPos1 + 6 + 2;
          written = writeRows (yPos2, pages) (filter (\<lambda>e. category e = cat) exps);
          res = writeSections exps
                  (pageBreakIfPast (fst (snd written) + 10, snd (snd written))) rest
      in (\<lparr> sectionCategory = cat, sectionAmount = amt, headerMark = hdr,
             tableHeaderMark = th, rows = fst written \<rparr> # fst res,
          snd res))"

text \<open>The period line and the file name.\<close>

definition periodTag :: "period \<Rightarrow> string" where
  "periodTag p =
     (case p of Today \<Rightarrow> ''today'' | Week \<Rightarrow> ''week'' | Month \<Rightarrow> ''month''
      | LastMonth \<Rightarrow> ''lastMonth'' | Year \<Rightarrow> ''year'' | LastYear \<Rightarrow> ''lastYear''
      | All \<Rightarrow> ''all'' | Custom \<Rightarrow> ''custom'')"

definition toUpperCase :: "char \<Rightarrow> char" where
  "toUpperCase c = (if CHR ''a'' \<le> c \<and> c \<le> CHR ''z'' then char_of (of_char c - (32::nat)) else c)"

definition capitalize :: "string \<Rightarrow> string" where
  "capitalize s = (case s of [] \<Rightarrow> [] | c # cs \<Rightarrow> toUpperCase c # cs)"

text \<open>\<^verbatim>\<open>formatDate\<close>: the \<^verbatim>\<open>en-GB\<close> form with two-digit day and month.\<close>

definition formatDate :: "caldate \<Rightarrow> string" where
  "formatDate d = pad 2 (showNat (day d)) @ ''/'' @ pad 2 (showNat (month d)) @ ''/'' @ showNat (year d)"

definition exportDateRange ::
  "env \<Rightarrow> 'a selection_scheme \<Rightarrow> caldate option \<times> caldate option" where
  "exportDateRange env s =
     (if period s = All then
        (Some (case createdAt env of Some c \<Rightarrow> c | None \<Rightarrow> epoch2000), Some (now env))
      else if period s = Custom then (startDate (customDate s), endDate (customDate s))
      else (case getDateRange env (period s) of (a, b) \<Rightarrow> (Some a, Some b)))"

definition periodLine :: "period \<Rightarrow> caldate \<Rightarrow> caldate \<Rightarrow> string" where
  "periodLine p a b =
     (if p = Custom \<or> p = All then ''Period: '' @ formatDate a @ '' to '' @ formatDate b
      else ''Period: '' @ capitalize (periodTag p) @ '' ('' @ formatDate a @ '' to ''
             @ formatDate b @ '')'')"

definition getFilenameDatePart :: "'a selection_scheme \<Rightarrow> string option" where
  "getFilenameDatePart s =
     (if period s = Custom then
        (case (startDate (customDate s), endDate (customDate s)) of
           (Some a, Some b) \<Rightarrow> Some (isoDate a @ ''_to_'' @ isoDate b)
         | _ \<Rightarrow> None)
      else if period s = All then Some ''all-time''
      else Some (periodTag (period s)))"

definition exportToPDF :: "env \<Rightarrow> state \<Rightarrow> export_result" where
  "exportToPDF env s =
     (case logo env of
        LogoError \<Rightarrow> NothingProduced
      | LogoLoaded w h \<Rightarrow>
          (case (exportDateRange env s, getFilenameDatePart s) of
             ((Some a, Some b), Some part) \<Rightarrow>
               (let size = logoSize w h;
                    yTitle = 10 + snd size + 10;
                    yPeriod = yTitle + 15;
                    ySummary = yPeriod + 20;
                    yBox = ySummary + 10;
                    yBreakdown = yBox + 30;
                    written = writeSections (expenses s) (yBreakdown + 10, 0)
                                (case reportData s of None \<Rightarrow> [] | Some r \<Rightarrow> categoryTotals r)
                in Saved
                     \<lparr> logoWidth = fst size, logoHeight = snd size,
                       titleY = yTitle,
                       periodText = periodLine (period s) a b, periodTextY = yPeriod,
                       summaryY = ySummary, summaryBoxY = yBox, summary = reportData s,
                       breakdownY = yBreakdown,
                       sections = fst written,
                       pageCount = snd (snd written) + 1,
                       filename = ''finsight-report-'' @ part @ ''.pdf'',
                       delivery = (if isNativePlatform env \<and> writeFileSucceeds env
                                   then DocumentsFile else BrowserDownload) \<rparr>)
           | _ \<Rightarrow> HandlerThrew))"

section \<open>Notions used to state the properties\<close>

text \<open>
  The rational an amount parses to (\<open>0\<close> when it does not parse), the sum of an object's
  values as \<^verbatim>\<open>Object.values(obj).reduce((a, b) => a + b, 0)\<close> computes it, and the
  single-key view of the accumulation loop.
\<close>

definition amountValue :: "expense \<Rightarrow> rat" where
  "amountValue e = (case parseFloat (amount e) of Num r \<Rightarrow> r | NaN \<Rightarrow> 0)"


definition tally :: "(expense \<Rightarrow> string) \<Rightarrow> jsobj \<Rightarrow> expense list \<Rightarrow> jsobj" where
  "tally key obj es =
     foldl (\<lambda>ob e. AList.update (key e)
              (js_add (or_zero (map_of ob (key e))) (parseFloat (amount e))) ob) obj es"





text \<open>
  Views of an export's outcome: whether a document was saved, its sections and its number
  of pages (none when nothing was saved), and the category and total of each section in
  the order drawn. \<open>follows m m'\<close> says that \<open>m'\<close> is where the cursor stands after a row
  drawn at \<open>m\<close> and the overflow test behind it. \<open>categoryEntries\<close> is
  \<^verbatim>\<open>Object.entries(reportData.categoryTotals || {})\<close>.
\<close>

fun saved :: "export_result \<Rightarrow> bool" where
  "saved (Saved d) = True"
| "saved _ = False"

fun sectionsOf :: "export_result \<Rightarrow> category_section list" where
  "sectionsOf (Saved d) = sections d"
| "sectionsOf _ = []"

fun pagesOf :: "export_result \<Rightarrow> nat" where
  "pagesOf (Saved d) = pageCount d"
| "pagesOf _ = 0"

definition sectionTotals :: "export_result \<Rightarrow> (string \<times> jsnum) list" where
  "sectionTotals res = map (\<lambda>sec. (sectionCategory sec, sectionAmount sec)) (sectionsOf res)"


definition categoryEntries :: "report option \<Rightarrow> jsobj" where
  "categoryEntries rd = (case rd of None \<Rightarrow> [] | Some r \<Rightarrow> categoryTotals r)"

section \<open>Sample data\<close>

definition lunch_unparsable :: expense where
  "lunch_unparsable = \<lparr> amount = ''abc'', category = ''food'',
      date = \<lparr> year = 2024, month = 10, day = 1 \<rparr>, description = ''lunch'' \<rparr>"

definition dinner_10 :: expense where
  "dinner_10 = \<lparr> amount = ''10'', category = ''food'',
      date = \<lparr> year = 2024, month = 2, day = 1 \<rparr>, description = ''dinner'' \<rparr>"

definition rent_100 :: expense where
  "rent_100 = \<lparr> amount = ''100.50'', category = ''rent'',
      date = \<lparr> year = 2024, month = 10, day = 1 \<rparr>, description = ''october rent'' \<rparr>"

definition sample_env :: env where
  "sample_env =
     \<lparr> localeDateString = toLocaleDateString_enUS,
       now = \<lparr> year = 2024, month = 11, day = 2 \<rparr>,
       createdAt = None,
       getDateRange = (\<lambda>p. (\<lparr> year = 2024, month = 11, day = 1 \<rparr>,
                             \<lparr> year = 2024, month = 11, day = 30 \<rparr>)),
       expenseCategories = (\<lambda>c. None),
       getExpenses = (\<lambda>a b. Inl ''Network Error''),
       getBudgets = Inr [],
       logo = LogoLoaded 100 100,
       isNativePlatform = False,
       writeFileSucceeds = False \<rparr>"

definition sample_state :: state where
  "sample_state =
     \<lparr> period = Month, customDate = \<lparr> startDate = None, endDate = None \<rparr>,
       expenses = [dinner_10, rent_100],
       budgets = [],
       reportData = Some (processReportData toLocaleDateString_enUS [dinner_10, rent_100]),
       loading = False,
       error = None \<rparr>"

definition october_third :: caldate where
  "october_third = \<lparr> year = 2024, month = 10, day = 3 \<rparr>"


definition thirteen_food :: state where
  "thirteen_food =
     sample_state\<lparr> expenses := replicate 13 dinner_10,
                   reportData := Some \<lparr> totalSpent = Num 130,
                                        categoryTotals = [(''food'', Num 130)],
                                        dailyTotals = [(''2/1/2024'', Num 130)],
                                        transactionCount = 13,
                                        averageTransaction = Num 10 \<rparr> \<rparr>"

definition bulk_food :: state where
  "bulk_food =
     sample_state\<lparr> expenses := replicate 200 dinner_10,
                   reportData := Some \<lparr> totalSpent = Num 2000,
                                        categoryTotals = [(''food'', Num 2000)],
                                        dailyTotals = [(''2/1/2024'', Num 2000)],
                                        transactionCount = 200,
                                        averageTransaction = Num 10 \<rparr> \<rparr>"

definition food_then_rent :: state where
  "food_then_rent =
     sample_state\<lparr> expenses := replicate 43 dinner_10 @ [rent_100],
                   reportData := Some \<lparr> totalSpent = Num (1061 / 2),
                                        categoryTotals = [(''food'', Num 430),
                                                          (''rent'', Num (201 / 2))],
                                        dailyTotals = [(''2/1/2024'', Num 430),
                                                       (''10/1/2024'', Num (201 / 2))],
                                        transactionCount = 44,
                                        averageTransaction = Num (1061 / 88) \<rparr> \<rparr>"

section \<open>The aggregation loop, key by key\<close>

lemma foldl_accumulate:
  "foldl (accumulate f) (t, c, d) es =
     (foldl js_add t (map (\<lambda>e. parseFloat (amount e)) es),
      tally category c es, tally (\<lambda>e. f (date e)) d es)"
  by (induction es arbitrary: t c d) (simp_all add: accumulate_def tally_def Let_def)
















lemma report_fields:
  "totalSpent (processReportData f es) = foldl js_add (Num 0) (map (\<lambda>e. parseFloat (amount e)) es)"
  "categoryTotals (processReportData f es) = tally category [] es"
  "dailyTotals (processReportData f es) = tally (\<lambda>e. f (date e)) [] es"
  "transactionCount (processReportData f es) = length es"
  "averageTransaction (processReportData f es) =
     (if length es > 0 then js_div_count (totalSpent (processReportData f es)) (length es) else Num 0)"
  by (simp_all add: processReportData_def foldl_accumulate)




lemma sample_eval:
  "parseFloat (amount lunch_unparsable) = NaN"
  "parseFloat (amount dinner_10) = Num 10"
  "parseFloat (amount rent_100) = Num (201 / 2)"
  by (simp_all add: lunch_unparsable_def dinner_10_def rent_100_def parseFloat_def parseUnsigned_def
        isDigit_def isSpace_def digitsVal_def digitVal_def pow10_def parseExponent_def)

lemma sample_fields:
  "category lunch_unparsable = ''food''" "category dinner_10 = ''food''"
  "category rent_100 = ''rent''"
  "amountValue lunch_unparsable = 0" "amountValue dinner_10 = 10" "amountValue rent_100 = 201 / 2"
  by (simp_all add: amountValue_def sample_eval)
     (simp_all add: lunch_unparsable_def dinner_10_def rent_100_def)

section \<open>Aggregation: what happens to an amount that does not parse\<close>




section \<open>Aggregation: the totals agree\<close>



section \<open>Aggregation: the order of the records\<close>




section \<open>The daily trend\<close>

lemma sample_dates:
  "toLocaleDateString_enUS (date dinner_10) = ''2/1/2024''"
  "toLocaleDateString_enUS (date rent_100) = ''10/1/2024''"
  by (simp_all add: dinner_10_def rent_100_def) code_simp+

lemma sample_dailyTotals:
  "dailyTotals (processReportData toLocaleDateString_enUS [dinner_10, rent_100]) =
     [(''2/1/2024'', Num 10), (''10/1/2024'', Num (201 / 2))]"
  by (simp add: report_fields tally_def sample_eval sample_dates)

text \<open>
  Claim C4 asks for the days in calendar order. The code sorts the display strings: with
  the \<^verbatim>\<open>en-US\<close> formatter, an expense of 1 February 2024 and one of 1 October 2024 give
  the labels \<^verbatim>\<open>10/1/2024\<close>, \<^verbatim>\<open>2/1/2024\<close>: October is drawn before February. (The values
  do follow the labels, index by index.)
\<close>

theorem daily_trend_october_before_february:
  "getDailyTrendData (Some (processReportData toLocaleDateString_enUS [dinner_10, rent_100])) =
     \<lparr> labels = [''10/1/2024'', ''2/1/2024''],
       data = [Some (Num (201 / 2)), Some (Num 10)] \<rparr>"
  by (simp add: getDailyTrendData_def sample_dailyTotals)

section \<open>The top categories\<close>









section \<open>The period selection\<close>

lemma dispatch_keeps_bounds_clear:
  assumes "dispatch s ev = Some s'"
    and "period s \<noteq> Custom \<longrightarrow> customDate s = \<lparr> startDate = None, endDate = None \<rparr>"
  shows "period s' \<noteq> Custom \<longrightarrow> customDate s' = \<lparr> startDate = None, endDate = None \<rparr>"
  using assms by (cases ev) (auto split: if_splits)

lemma run_keeps_bounds_clear:
  assumes "run s evs = Some s'"
    and "period s \<noteq> Custom \<longrightarrow> customDate s = \<lparr> startDate = None, endDate = None \<rparr>"
  shows "period s' \<noteq> Custom \<longrightarrow> customDate s' = \<lparr> startDate = None, endDate = None \<rparr>"
  using assms
proof (induction evs arbitrary: s)
  case Nil
  then show ?case by simp
next
  case (Cons ev evs)
  from Cons.prems(1) obtain s1 where d: "dispatch s ev = Some s1" and r: "run s1 evs = Some s'"
    by (auto split: option.splits)
  from dispatch_keeps_bounds_clear [OF d Cons.prems(2)] Cons.IH [OF r] show ?case
    by blast
qed

text \<open>
  Claim C10. In every state the selection reaches from its initial value, a period other
  than \<^verbatim>\<open>custom\<close> has both custom bounds \<open>null\<close>; so for the period \<^verbatim>\<open>all\<close> the end of the
  fetched range is the current date, never a custom end.
\<close>

theorem non_custom_period_has_no_bounds:
  assumes "run initialSelection evs = Some s"
  shows "(period s \<noteq> Custom \<longrightarrow> customDate s = \<lparr> startDate = None, endDate = None \<rparr>)
         \<and> (period s = All \<longrightarrow> snd (fetchDateRange env s) = Some (now env))"
proof -
  have i: "period initialSelection \<noteq> Custom \<longrightarrow>
           customDate initialSelection = \<lparr> startDate = None, endDate = None \<rparr>"
    by (simp add: initialSelection_def)
  note inv = run_keeps_bounds_clear [OF assms i]
  then have "period s = All \<longrightarrow> endDate (customDate s) = None" by auto
  then have "period s = All \<longrightarrow> snd (fetchDateRange env s) = Some (now env)"
    by (simp add: fetchDateRange_def)
  with inv show ?thesis by blast
qed

theorem non_custom_period_has_no_bounds_witness:
  "run initialSelection
     [SelectPeriod Custom, PickStartDate (Some epoch2000), PickEndDate (Some october_third),
      SelectPeriod All]
     = Some \<lparr> period = All, customDate = \<lparr> startDate = None, endDate = None \<rparr> \<rparr>
   \<and> snd (fetchDateRange sample_env
            \<lparr> period = All, customDate = \<lparr> startDate = None, endDate = None \<rparr> \<rparr>)
       = Some (now sample_env)"
proof -
  have r: "run initialSelection
     [SelectPeriod Custom, PickStartDate (Some epoch2000), PickEndDate (Some october_third),
      SelectPeriod All]
     = Some \<lparr> period = All, customDate = \<lparr> startDate = None, endDate = None \<rparr> \<rparr>"
    by (simp add: initialSelection_def)
  from non_custom_period_has_no_bounds [OF r, of sample_env] r show ?thesis
    by simp
qed

section \<open>A fetch that fails\<close>

text \<open>
  Claim C9, as the code has it. When the selection is complete and one of the two remote
  calls is rejected, \<^verbatim>\<open>fetchReportData\<close> hands the error to \<^verbatim>\<open>handleError\<close> and clears
  \<open>loading\<close>; the held summary, expenses and budgets stay as they were.
\<close>

theorem fetch_failure_keeps_held_summary:
  assumes "\<not> (period s = Custom
              \<and> (startDate (customDate s) = None \<or> endDate (customDate s) = None))"
    and "fetchDateRange env s = (Some a, Some b)"
    and "remoteFetch env a b = Inl err"
  shows "error (fetchReportData env s) = Some err
         \<and> loading (fetchReportData env s) = False
         \<and> reportData (fetchReportData env s) = reportData s
         \<and> expenses (fetchReportData env s) = expenses s
         \<and> budgets (fetchReportData env s) = budgets s"
proof -
  have "fetchReportData env s = (handleError err s)\<lparr> loading := False \<rparr>"
    unfolding fetchReportData_def by (simp only: assms if_False prod.case option.case sum.case)
  then show ?thesis by (simp add: handleError_def)
qed

lemma sample_fetch:
  "fetchDateRange sample_env sample_state =
     (Some \<lparr> year = 2024, month = 11, day = 1 \<rparr>, Some \<lparr> year = 2024, month = 11, day = 30 \<rparr>)"
  "remoteFetch sample_env a b = Inl ''Network Error''"
  by (simp_all add: fetchDateRange_def remoteFetch_def sample_env_def sample_state_def)

theorem fetch_failure_keeps_held_summary_witness:
  "error (fetchReportData sample_env sample_state) = Some ''Network Error''
   \<and> loading (fetchReportData sample_env sample_state) = False
   \<and> reportData (fetchReportData sample_env sample_state)
       = Some (processReportData toLocaleDateString_enUS [dinner_10, rent_100])"
proof -
  have c: "\<not> (period sample_state = Custom
              \<and> (startDate (customDate sample_state) = None
                   \<or> endDate (customDate sample_state) = None))"
    by (simp add: sample_state_def)
  from fetch_failure_keeps_held_summary [OF c sample_fetch(1) sample_fetch(2)]
  show ?thesis by (simp add: sample_state_def)
qed

lemma sample_report_total:
  "totalSpent (processReportData toLocaleDateString_enUS [dinner_10, rent_100]) = Num (221 / 2)"
  by (simp add: report_fields sample_eval)

text \<open>
  A summary of 110.50 is on display and the fetch for the month fails: the summary held
  afterwards is still that one, not the empty summary.
\<close>

theorem fetch_failure_counterexample:
  "reportData (fetchReportData sample_env sample_state)
       = Some (processReportData toLocaleDateString_enUS [dinner_10, rent_100])
   \<and> totalSpent (processReportData toLocaleDateString_enUS [dinner_10, rent_100]) = Num (221 / 2)
   \<and> totalSpent emptyReport = Num 0"
  by (simp add: fetchReportData_def handleError_def sample_fetch sample_report_total emptyReport_def)
     (simp add: sample_state_def)

section \<open>The document export: outcome and layout\<close>

lemma exportToPDF_LogoError: "logo env = LogoError \<Longrightarrow> exportToPDF env s = NothingProduced"
  by (simp add: exportToPDF_def)

lemma exportDateRange_complete:
  assumes "\<not> (period s = Custom
              \<and> (startDate (customDate s) = None \<or> endDate (customDate s) = None))"
  shows "\<exists>a b. exportDateRange env s = (Some a, Some b)"
  using assms by (auto simp: exportDateRange_def split: prod.splits)

lemma getFilenameDatePart_complete:
  assumes "\<not> (period s = Custom
              \<and> (startDate (customDate s) = None \<or> endDate (customDate s) = None))"
  shows "\<exists>part. getFilenameDatePart s = Some part"
  using assms by (auto simp: getFilenameDatePart_def)

lemma exportToPDF_loaded:
  assumes "logo env = LogoLoaded w h"
    and "exportDateRange env s = (Some a, Some b)"
    and "getFilenameDatePart s = Some part"
  shows "saved (exportToPDF env s)"
    and "sectionsOf (exportToPDF env s) =
           fst (writeSections (expenses s) (105 + snd (logoSize w h), 0)
                  (categoryEntries (reportData s)))"
    and "pagesOf (exportToPDF env s) =
           snd (snd (writeSections (expenses s) (105 + snd (logoSize w h), 0)
                  (categoryEntries (reportData s)))) + 1"
  using assms by (simp_all add: exportToPDF_def Let_def categoryEntries_def)


lemma length_writeSections: "length (fst (writeSections exps c cats)) = length cats"
  by (induction exps c cats rule: writeSections.induct) (simp_all add: Let_def)

lemma sectionTotals_writeSections:
  "map (\<lambda>sec. (sectionCategory sec, sectionAmount sec)) (fst (writeSections exps c cats)) = cats"
  by (induction exps c cats rule: writeSections.induct) (simp_all add: Let_def)


lemma sectionTotals_export:
  "saved (exportToPDF env s) \<Longrightarrow>
   sectionTotals (exportToPDF env s) = categoryEntries (reportData s)"
  by (auto simp: sectionTotals_def exportToPDF_def Let_def categoryEntries_def
        sectionTotals_writeSections split: logo_event.splits option.splits prod.splits)

lemma sample_export_inputs:
  "logo sample_env = LogoLoaded 100 100"
  "exportDateRange sample_env sample_state =
     (Some \<lparr> year = 2024, month = 11, day = 1 \<rparr>, Some \<lparr> year = 2024, month = 11, day = 30 \<rparr>)"
  "getFilenameDatePart sample_state = Some ''month''"
  by (simp_all add: sample_env_def sample_state_def exportDateRange_def getFilenameDatePart_def
        periodTag_def)

lemma sample_categoryTotals:
  "categoryTotals (processReportData f [dinner_10, rent_100]) =
     [(''food'', Num 10), (''rent'', Num (201 / 2))]"
  by (simp add: report_fields tally_def sample_eval sample_fields)




lemma writeRows_Nil: "writeRows c [] = ([], c)"
  by simp

lemma writeRows_Cons:
  "writeRows (yPos, pages) (e # es) =
     (\<lparr> rowMark = \<lparr> atPage = pages, atY = yPos \<rparr>, rowExpense = e \<rparr>
        # fst (writeRows (pageBreakIfPast (yPos + 8, pages)) es),
      snd (writeRows (pageBreakIfPast (yPos + 8, pages)) es))"
  by (simp add: Let_def)

lemma writeSections_Nil: "writeSections exps c [] = ([], c)"
  by simp

lemma writeSections_Cons:
  "writeSections exps (yPos, pages) ((cat, amt) # rest) =
     (\<lparr> sectionCategory = cat, sectionAmount = amt,
         headerMark = \<lparr> atPage = pages, atY = yPos \<rparr>,
         tableHeaderMark = \<lparr> atPage = pages, atY = yPos + 16 \<rparr>,
         rows = fst (writeRows (yPos + 16 + 6 + 2, pages) (filter (\<lambda>e. category e = cat) exps)) \<rparr>
        # fst (writeSections exps
                 (pageBreakIfPast
                    (fst (snd (writeRows (yPos + 16 + 6 + 2, pages)
                                 (filter (\<lambda>e. category e = cat) exps))) + 10,
                     snd (snd (writeRows (yPos + 16 + 6 + 2, pages)
                                 (filter (\<lambda>e. category e = cat) exps)))))
                 rest),
      snd (writeSections exps
                 (pageBreakIfPast
                    (fst (snd (writeRows (yPos + 16 + 6 + 2, pages)
                                 (filter (\<lambda>e. category e = cat) exps))) + 10,
                     snd (snd (writeRows (yPos + 16 + 6 + 2, pages)
                                 (filter (\<lambda>e. category e = cat) exps)))))
                 rest))"
  by (simp only: writeSections.simps Let_def)

declare writeRows.simps [simp del] writeSections.simps [simp del]

lemma fst_writeRows_Cons:
  "fst (writeRows (yPos, pages) (e # es)) =
     \<lparr> rowMark = \<lparr> atPage = pages, atY = yPos \<rparr>, rowExpense = e \<rparr>
       # fst (writeRows (pageBreakIfPast (yPos + 8, pages)) es)"
  by (simp add: writeRows_Cons)

lemma snd_writeRows_Cons:
  "snd (writeRows (yPos, pages) (e # es)) = snd (writeRows (pageBreakIfPast (yPos + 8, pages)) es)"
  by (simp add: writeRows_Cons)
















lemma sample_export_layout:
  assumes "period s = Month"
  shows "sectionsOf (exportToPDF sample_env s) =
           fst (writeSections (expenses s) (145, 0) (categoryEntries (reportData s)))"
    and "pagesOf (exportToPDF sample_env s) =
           snd (snd (writeSections (expenses s) (145, 0) (categoryEntries (reportData s)))) + 1"
proof -
  have r: "exportDateRange sample_env s =
     (Some \<lparr> year = 2024, month = 11, day = 1 \<rparr>, Some \<lparr> year = 2024, month = 11, day = 30 \<rparr>)"
    using assms by (simp add: exportDateRange_def sample_env_def)
  have f: "getFilenameDatePart s = Some ''month''"
    using assms by (simp add: getFilenameDatePart_def periodTag_def)
  have l: "105 + snd (logoSize 100 100) = 145" by (simp add: logoSize_def)
  from exportToPDF_loaded(2) [OF sample_export_inputs(1) r f] l
  show "sectionsOf (exportToPDF sample_env s) =
           fst (writeSections (expenses s) (145, 0) (categoryEntries (reportData s)))"
    by simp
  from exportToPDF_loaded(3) [OF sample_export_inputs(1) r f] l
  show "pagesOf (exportToPDF sample_env s) =
           snd (snd (writeSections (expenses s) (145, 0) (categoryEntries (reportData s)))) + 1"
    by simp
qed

lemma sample_periods:
  "period thirteen_food = Month" "period food_then_rent = Month" "period bulk_food = Month"
  by (simp_all add: thirteen_food_def food_then_rent_def bulk_food_def sample_state_def)



lemma forty_three_rows:
  "snd (writeRows (169, 0) (replicate 43 e)) = (260, 1)"
  by (simp add: eval_nat_numeral snd_writeRows_Cons writeRows_Nil pageBreakIfPast_def)

lemma second_section:
  assumes "snd (writeRows (yPos + 16 + 6 + 2, pages) (filter (\<lambda>e. category e = c1) exps)) = (y1, p1)"
    and "y1 + 10 \<le> 270"
  shows "fst (writeSections exps (yPos, pages) [(c1, a1), (c2, a2)]) ! 1 =
           \<lparr> sectionCategory = c2, sectionAmount = a2,
             headerMark = \<lparr> atPage = p1, atY = y1 + 10 \<rparr>,
             tableHeaderMark = \<lparr> atPage = p1, atY = y1 + 10 + 16 \<rparr>,
             rows = fst (writeRows (y1 + 10 + 16 + 6 + 2, p1)
                           (filter (\<lambda>e. category e = c2) exps)) \<rparr>"
proof -
  from assms(2) have "pageBreakIfPast (y1 + 10, p1) = (y1 + 10, p1)"
    by (simp add: pageBreakIfPast_def)
  then show ?thesis
    by (simp only: writeSections_Cons writeSections_Nil assms(1) fst_conv snd_conv
          nth_Cons_Suc nth_Cons_0 One_nat_def)
qed

section \<open>The export and the logo\<close>

text \<open>
  Claim C8, as the code has it. The document is built and saved inside the logo's
  \<^verbatim>\<open>onload\<close> handler. When the logo fails to load, the handler never runs: nothing is
  produced and no error is reported. When it loads and the selection is complete, the
  document is saved, with the held summary and one section per category.
\<close>

theorem export_needs_logo:
  "(logo env = LogoError \<longrightarrow> exportToPDF env s = NothingProduced)
   \<and> (logo env \<noteq> LogoError
        \<and> \<not> (period s = Custom
               \<and> (startDate (customDate s) = None \<or> endDate (customDate s) = None))
      \<longrightarrow> (\<exists>d. exportToPDF env s = Saved d \<and> summary d = reportData s
                \<and> length (sections d) = length (categoryEntries (reportData s))))"
proof (intro conjI impI)
  assume "logo env = LogoError"
  then show "exportToPDF env s = NothingProduced" by (rule exportToPDF_LogoError)
next
  assume a: "logo env \<noteq> LogoError
        \<and> \<not> (period s = Custom
               \<and> (startDate (customDate s) = None \<or> endDate (customDate s) = None))"
  then obtain w h where l: "logo env = LogoLoaded w h"
    by (cases "logo env") auto
  from a have c: "\<not> (period s = Custom
               \<and> (startDate (customDate s) = None \<or> endDate (customDate s) = None))"
    by simp
  from exportDateRange_complete [OF c] obtain x y
    where r: "exportDateRange env s = (Some x, Some y)" by blast
  from getFilenameDatePart_complete [OF c] obtain part
    where f: "getFilenameDatePart s = Some part" by blast
  show "\<exists>d. exportToPDF env s = Saved d \<and> summary d = reportData s
                \<and> length (sections d) = length (categoryEntries (reportData s))"
    by (simp add: exportToPDF_def l r f Let_def length_writeSections categoryEntries_def)
qed

theorem export_needs_logo_witness:
  "exportToPDF (sample_env\<lparr> logo := LogoError \<rparr>) sample_state = NothingProduced
   \<and> saved (exportToPDF sample_env sample_state)"
proof -
  have a: "logo (sample_env\<lparr> logo := LogoError \<rparr>) = LogoError" by simp
  have b: "logo sample_env \<noteq> LogoError
        \<and> \<not> (period sample_state = Custom
               \<and> (startDate (customDate sample_state) = None
                    \<or> endDate (customDate sample_state) = None))"
    by (simp add: sample_env_def sample_state_def)
  note t1 = export_needs_logo
    [of "sample_env\<lparr> logo := LogoError \<rparr>" sample_state, THEN conjunct1, THEN mp, OF a]
  note t2 = export_needs_logo [of sample_env sample_state, THEN conjunct2, THEN mp, OF b]
  from t2 have "saved (exportToPDF sample_env sample_state)" by auto
  with t1 show ?thesis by simp
qed

text \<open>The sample page with a logo that fails to load: no document.\<close>

theorem export_without_logo_counterexample:
  "exportToPDF (sample_env\<lparr> logo := LogoError \<rparr>) sample_state = NothingProduced"
  by (simp add: exportToPDF_def)

section \<open>The order of the category sections\<close>

text \<open>
  Claim C6 asks for the sections in descending order of their totals, as the on-screen
  breakdown sorts them. The export iterates \<^verbatim>\<open>Object.entries(reportData.categoryTotals)\<close>
  unsorted: for a dinner of 10 (food) recorded before a rent of 100.50, the section of
  \<open>food\<close> (10) is drawn before the section of \<open>rent\<close> (100.50).
\<close>

theorem export_sections_in_insertion_order:
  "sectionTotals (exportToPDF sample_env sample_state) =
     [(''food'', Num 10), (''rent'', Num (201 / 2))]"
proof -
  have "saved (exportToPDF sample_env sample_state)"
    by (rule exportToPDF_loaded(1) [OF sample_export_inputs])
  then have "sectionTotals (exportToPDF sample_env sample_state) =
               categoryEntries (reportData sample_state)"
    by (rule sectionTotals_export)
  then show ?thesis
    by (simp add: categoryEntries_def sample_state_def sample_categoryTotals)
qed

section \<open>Page breaks\<close>




text \<open>
  No test stands between the header of a section and its first row. With 43 rows of food
  followed by one of rent, the header of the second section is drawn at 270 and its first
  row at 294, below the margin.
\<close>

lemma first_row_below_margin:
  "headerMark (sectionsOf (exportToPDF sample_env food_then_rent) ! 1)
     = \<lparr> atPage = 1, atY = 270 \<rparr>
   \<and> map rowMark (rows (sectionsOf (exportToPDF sample_env food_then_rent) ! 1))
     = [\<lparr> atPage = 1, atY = 294 \<rparr>]"
proof -
  let ?exps = "replicate 43 dinner_10 @ [rent_100]"
  have e: "expenses food_then_rent = ?exps"
    and c: "categoryEntries (reportData food_then_rent)
              = [(''food'', Num 430), (''rent'', Num (201 / 2))]"
    by (simp_all add: food_then_rent_def categoryEntries_def)
  have f1: "filter (\<lambda>e. category e = ''food'') ?exps = replicate 43 dinner_10"
    by (simp add: sample_fields)
  have f2: "filter (\<lambda>e. category e = ''rent'') ?exps = [rent_100]"
    by (simp add: sample_fields)
  have w: "snd (writeRows (145 + 16 + 6 + 2, 0) (filter (\<lambda>e. category e = ''food'') ?exps))
             = (260, 1)"
    unfolding f1 using forty_three_rows [of dinner_10] by simp
  have s: "sectionsOf (exportToPDF sample_env food_then_rent) ! 1 =
             fst (writeSections ?exps (145, 0) [(''food'', Num 430), (''rent'', Num (201 / 2))]) ! 1"
    by (simp only: sample_export_layout(1) [OF sample_periods(2)] e c)
  have sec: "fst (writeSections ?exps (145, 0) [(''food'', Num 430), (''rent'', Num (201 / 2))]) ! 1 =
           \<lparr> sectionCategory = ''rent'', sectionAmount = Num (201 / 2),
             headerMark = \<lparr> atPage = 1, atY = 260 + 10 \<rparr>,
             tableHeaderMark = \<lparr> atPage = 1, atY = 260 + 10 + 16 \<rparr>,
             rows = fst (writeRows (260 + 10 + 16 + 6 + 2, 1)
                           (filter (\<lambda>e. category e = ''rent'') ?exps)) \<rparr>"
    by (rule second_section [OF w]) simp
  show ?thesis
    unfolding s sec f2 by (simp add: fst_writeRows_Cons writeRows_Nil)
qed

end
